theory Spec2Isabelle
  imports Main "HOL-Library.AList"
begin

section \<open>The Olarm Sensors config flow and options flow\<close>

text \<open>
  A shallow embedding of \<^verbatim>\<open>custom_components/olarm_sensors/config_flow.py\<close>:
  the initial setup step \<^verbatim>\<open>OlarmSensorsConfigFlow.async_step_user\<close> and the
  options step \<^verbatim>\<open>OlarmOptionsFlow.async_step_init\<close>, with their form schemas.
\<close>

subsection \<open>Values and dictionaries\<close>

text \<open>
  One element of the list that \<^verbatim>\<open>get_olarm_devices\<close> returns: the four keys
  the flow reads from a device dictionary.
\<close>

record device =
  deviceName :: string
  deviceFirmware :: string
  deviceId :: string
  deviceAlarmType :: string

text \<open>The Python values that are stored in the data of a config entry.\<close>

datatype pyval =
    PNone
  | PStr string
  | PInt int
  | PStrList "string list"
  | PDevList "device list"

type_synonym pydict = "string \<rightharpoonup> pyval"

text \<open>The exceptions that leave the two steps.\<close>

datatype exn =
    UnboundLocalError
  | IndexError
  | KeyError
  | TypeError
  | ValueError
  | OtherError

subsection \<open>Constants\<close>

text \<open>
  \<^verbatim>\<open>CONF_API_KEY\<close> and \<^verbatim>\<open>CONF_SCAN_INTERVAL\<close> are imported from
  \<^verbatim>\<open>homeassistant.const\<close>.
\<close>

definition CONF_API_KEY :: string where
  "CONF_API_KEY = ''api_key''"

definition CONF_SCAN_INTERVAL :: string where
  "CONF_SCAN_INTERVAL = ''scan_interval''"

text \<open>
  The names imported from the module \<^verbatim>\<open>.const\<close>, whose values the flow does not
  fix: every definition below takes them as a parameter.
\<close>

record flow_consts =
  AUTHENTICATION_ERROR :: string
  CONF_ALARM_CODE :: string
  CONF_DEVICE_FIRMWARE :: string
  CONF_OLARM_DEVICES :: string
  DOMAIN :: string
  OLARM_DEVICE_AMOUNT :: string
  OLARM_DEVICE_NAMES :: string
  OLARM_DEVICES :: string

text \<open>The keys of the data of a config entry, in the order of the dictionary display.\<close>

definition entry_keys :: "flow_consts \<Rightarrow> string list" where
  "entry_keys c =
     [CONF_API_KEY, CONF_SCAN_INTERVAL, CONF_DEVICE_FIRMWARE c, CONF_ALARM_CODE c,
      CONF_OLARM_DEVICES c, OLARM_DEVICES c, OLARM_DEVICE_AMOUNT c, OLARM_DEVICE_NAMES c]"

text \<open>An assignment of pairwise distinct names, used for concrete runs.\<close>

definition sample_consts :: flow_consts where
  "sample_consts =
     \<lparr>AUTHENTICATION_ERROR = ''invalid_credentials'',
      CONF_ALARM_CODE = ''olarm_arm_code'',
      CONF_DEVICE_FIRMWARE = ''olarm_device_firmware'',
      CONF_OLARM_DEVICES = ''selected_olarm_devices'',
      DOMAIN = ''olarm_sensors'',
      OLARM_DEVICE_AMOUNT = ''olarm_device_amount'',
      OLARM_DEVICE_NAMES = ''olarm_device_names'',
      OLARM_DEVICES = ''olarm_devices''\<rparr>"

subsection \<open>Form schemas, flow results, the host state\<close>

datatype validator =
    Cv_string
  | Coerce_int_range_min int
  | Cv_multi_select pyval

record schema_field =
  field_key :: string
  field_required :: bool
  field_default :: "pyval option"
  field_validator :: validator

type_synonym schema = "schema_field list"

text \<open>
  The dictionary a form submits, with the types its schema gives the values:
  \<^verbatim>\<open>cv.string\<close> for the API key and the alarm code, \<^verbatim>\<open>vol.Coerce(int)\<close> for the
  scan interval. The range of the scan interval is not part of the type, since the
  setup step checks it again. The key \<^verbatim>\<open>CONF_OLARM_DEVICES\<close> is optional and has no
  default, so it may be absent; only the schema of the options step has it.
\<close>

record user_input =
  ui_api_key :: string
  ui_scan_interval :: int
  ui_alarm_code :: string
  ui_olarm_devices :: "string list option"

type_synonym errors = "(string \<times> string) list"

datatype flow_result =
    Show_form string schema "errors option"
  | Create_entry string pydict

record config_entry =
  ce_domain :: string
  ce_source :: string
  ce_version :: int
  ce_minor_version :: int
  ce_title :: string
  ce_data :: pydict

record coordinator =
  co_entry :: config_entry
  co_device_id :: string
  co_device_name :: string
  co_device_make :: string

text \<open>What the awaited call \<^verbatim>\<open>api.get_olarm_devices()\<close> does.\<close>

datatype api_result =
    Returns "device list option"
  | Raises_APIForbiddenError
  | Raises_other

text \<open>The calls the setup step makes outside the flow, in the order it makes them.\<close>

datatype event =
    Get_olarm_devices string
  | Log_warning
  | Sleep nat
  | Update_data string

record state =
  trace :: "event list"
  hass_data :: "string \<rightharpoonup> (string \<rightharpoonup> coordinator)"

subsection \<open>The setup step\<close>

definition setup_get_schema :: "flow_consts \<Rightarrow> schema" where
  "setup_get_schema c =
     [\<lparr>field_key = CONF_API_KEY, field_required = True, field_default = None,
       field_validator = Cv_string\<rparr>,
      \<lparr>field_key = CONF_SCAN_INTERVAL, field_required = True, field_default = None,
       field_validator = Coerce_int_range_min 8\<rparr>,
      \<lparr>field_key = CONF_ALARM_CODE c, field_required = False,
       field_default = Some (PStr ''1234567890''), field_validator = Cv_string\<rparr>]"

definition show_setup_form :: "flow_consts \<Rightarrow> errors option \<Rightarrow> flow_result" where
  "show_setup_form c errors =
     Show_form ''user'' (setup_get_schema c)
       (Some (case errors of None \<Rightarrow> [] | Some es \<Rightarrow> es))"

text \<open>Lines 50 to 57: the validation of the submitted values.\<close>

definition validate_input :: "user_input \<Rightarrow> errors" where
  "validate_input ui =
     (let errors = [];
          errors = (if ui_api_key ui = [] then
                      AList.update CONF_API_KEY ''API key is required.'' errors
                    else errors);
          errors = (if ui_scan_interval ui = 0 then
                      AList.update CONF_SCAN_INTERVAL ''Scan interval is required.'' errors
                    else if ui_scan_interval ui < 8 then
                      AList.update CONF_SCAN_INTERVAL
                        ''Scan interval must be at least 8 seconds.'' errors
                    else errors)
      in errors)"

text \<open>Lines 62 to 66 and 222 to 226: the alarm code that is stored.\<close>

definition stored_alarm_code :: "user_input \<Rightarrow> pyval" where
  "stored_alarm_code ui =
     (if ui_alarm_code ui = ''1234567890'' then PNone else PStr (ui_alarm_code ui))"

definition mock_devices :: "device list" where
  "mock_devices =
     [\<lparr>deviceName = ''Device1'', deviceFirmware = ''1.0'', deviceId = ''123'',
       deviceAlarmType = ''Paradox''\<rparr>,
      \<lparr>deviceName = ''Device2'', deviceFirmware = ''1.1'', deviceId = ''124'',
       deviceAlarmType = ''IDS''\<rparr>]"

text \<open>
  Lines 68 to 92. The local variable \<^verbatim>\<open>json\<close> is bound by the assignment only:
  the result is \<open>None\<close> while it is unbound, \<open>Some None\<close> when it holds Python's
  \<^verbatim>\<open>None\<close>, and \<open>Some (Some devs)\<close> when it holds a list.
\<close>

definition fetch_devices ::
  "flow_consts \<Rightarrow> (string \<Rightarrow> api_result) \<Rightarrow> string \<Rightarrow> errors \<Rightarrow> state
     \<Rightarrow> state \<times> (exn + errors \<times> device list option option)" where
  "fetch_devices c get_olarm_devices api_key errors st =
     (if api_key \<noteq> ''mock_api_key'' \<and> api_key \<noteq> '''' then
        (let st1 = st\<lparr>trace := trace st @ [Get_olarm_devices api_key]\<rparr> in
         case get_olarm_devices api_key of
           Returns json \<Rightarrow> (st1, Inr (errors, Some json))
         | Raises_APIForbiddenError \<Rightarrow>
             (st1\<lparr>trace := trace st1 @ [Log_warning]\<rparr>,
              Inr (AList.update (AUTHENTICATION_ERROR c) ''Invalid credentials!'' errors, None))
         | Raises_other \<Rightarrow> (st1, Inl OtherError))
      else (st, Inr (errors, Some (Some mock_devices))))"

text \<open>The constructor call of lines 127 to 133.\<close>

definition OlarmCoordinator :: "config_entry \<Rightarrow> string \<Rightarrow> string \<Rightarrow> string \<Rightarrow> coordinator" where
  "OlarmCoordinator entry device_id device_name device_make =
     \<lparr>co_entry = entry, co_device_id = device_id, co_device_name = device_name,
      co_device_make = device_make\<rparr>"

text \<open>Lines 122 to 137: one coordinator for each device of the list.\<close>

fun register_devices ::
  "flow_consts \<Rightarrow> config_entry \<Rightarrow> string list \<Rightarrow> device list \<Rightarrow> state \<Rightarrow> state \<times> (exn + unit)" where
  "register_devices c temp_entry setup_devices [] st = (st, Inr ())"
| "register_devices c temp_entry setup_devices (dev # devs) st =
     (if deviceName dev \<notin> set setup_devices then
        register_devices c temp_entry setup_devices devs st
      else
        (let st1 = st\<lparr>trace := trace st @ [Sleep 2]\<rparr>;
             coordinator = OlarmCoordinator temp_entry (deviceId dev) (deviceName dev)
                             (deviceAlarmType dev);
             st2 = st1\<lparr>trace := trace st1 @ [Update_data (deviceId dev)]\<rparr>
         in case hass_data st2 (DOMAIN c) of
              None \<Rightarrow> (st2, Inl KeyError)
            | Some dd \<Rightarrow>
                register_devices c temp_entry setup_devices devs
                  (st2\<lparr>hass_data := (hass_data st2)(DOMAIN c \<mapsto> dd(deviceId dev \<mapsto> coordinator))\<rparr>)))"

text \<open>Lines 105 to 120: the entry that is handed to each coordinator.\<close>

definition temp_entry ::
  "flow_consts \<Rightarrow> string \<Rightarrow> int \<Rightarrow> string \<Rightarrow> pyval \<Rightarrow> string list \<Rightarrow> device list
     \<Rightarrow> config_entry" where
  "temp_entry c api_key scan_interval firmware alarm_code setup_devices json =
     \<lparr>ce_domain = DOMAIN c, ce_source = ''User'', ce_version = 1, ce_minor_version = 0,
      ce_title = ''Olarm Sensors'',
      ce_data =
        Map.empty
          (CONF_API_KEY \<mapsto> PStr api_key,
           CONF_SCAN_INTERVAL \<mapsto> PInt scan_interval,
           CONF_DEVICE_FIRMWARE c \<mapsto> PStr firmware,
           CONF_ALARM_CODE c \<mapsto> alarm_code,
           CONF_OLARM_DEVICES c \<mapsto> PStrList setup_devices,
           OLARM_DEVICE_AMOUNT c \<mapsto> PInt (int (length json)),
           OLARM_DEVICE_NAMES c \<mapsto> PStrList setup_devices)\<rparr>"

text \<open>Lines 142 to 151: the data of the entry that is created.\<close>

definition entry_data ::
  "flow_consts \<Rightarrow> string \<Rightarrow> int \<Rightarrow> string \<Rightarrow> pyval \<Rightarrow> string list \<Rightarrow> device list
     \<Rightarrow> pydict" where
  "entry_data c api_key scan_interval firmware alarm_code setup_devices json =
     Map.empty
       (CONF_API_KEY \<mapsto> PStr api_key,
        CONF_SCAN_INTERVAL \<mapsto> PInt scan_interval,
        CONF_DEVICE_FIRMWARE c \<mapsto> PStr firmware,
        CONF_ALARM_CODE c \<mapsto> alarm_code,
        CONF_OLARM_DEVICES c \<mapsto> PStrList setup_devices,
        OLARM_DEVICES c \<mapsto> PDevList json,
        OLARM_DEVICE_AMOUNT c \<mapsto> PInt (int (length json)),
        OLARM_DEVICE_NAMES c \<mapsto> PStrList setup_devices)"

text \<open>Lines 101 to 152: the entry is built and the coordinators are registered.\<close>

definition create_devices_entry ::
  "flow_consts \<Rightarrow> string \<Rightarrow> int \<Rightarrow> pyval \<Rightarrow> device list \<Rightarrow> state \<Rightarrow> state \<times> (exn + flow_result)" where
  "create_devices_entry c api_key scan_interval alarm_code json st =
     (let setup_devices = map deviceName json in
      case json of
        [] \<Rightarrow> (st, Inl IndexError)
      | dev0 # _ \<Rightarrow>
          (let firmware = deviceFirmware dev0;
               entry = temp_entry c api_key scan_interval firmware alarm_code setup_devices json
           in case register_devices c entry setup_devices json st of
                (st', Inl e) \<Rightarrow> (st', Inl e)
              | (st', Inr _) \<Rightarrow>
                  (st', Inr (Create_entry ''Olarm Sensors''
                     (entry_data c api_key scan_interval firmware alarm_code setup_devices
                        json)))))"

text \<open>
  \<^verbatim>\<open>async_step_user\<close>. The argument \<open>get_olarm_devices\<close> is the remote service:
  what the call does for each API key. The test \<^verbatim>\<open>json is None\<close> of line 94 reads the
  local variable, which raises \<^verbatim>\<open>UnboundLocalError\<close> while it is unbound. When
  \<^verbatim>\<open>json\<close> holds \<^verbatim>\<open>None\<close> an error is recorded and the form is shown, so the
  iteration over \<^verbatim>\<open>None\<close> of line 101 (a \<^verbatim>\<open>TypeError\<close>) is never reached.
\<close>

definition async_step_user ::
  "flow_consts \<Rightarrow> (string \<Rightarrow> api_result) \<Rightarrow> state \<Rightarrow> user_input option
     \<Rightarrow> state \<times> (exn + flow_result)" where
  "async_step_user c get_olarm_devices st user_input =
     (case user_input of
        None \<Rightarrow> (st, Inr (show_setup_form c None))
      | Some ui \<Rightarrow>
          (let errors = validate_input ui;
               api_key = ui_api_key ui;
               scan_interval = ui_scan_interval ui;
               alarm_code = stored_alarm_code ui
           in case fetch_devices c get_olarm_devices api_key errors st of
                (st1, Inl e) \<Rightarrow> (st1, Inl e)
              | (st1, Inr (errors, json)) \<Rightarrow>
                  (case json of
                     None \<Rightarrow> (st1, Inl UnboundLocalError)
                   | Some json \<Rightarrow>
                       (let errors = (if json = None then
                                        AList.update (AUTHENTICATION_ERROR c)
                                          ''Invalid credentials!'' errors
                                      else errors)
                        in if errors \<noteq> [] then (st1, Inr (show_setup_form c (Some errors)))
                           else
                             (case json of
                                None \<Rightarrow> (st1, Inl TypeError)
                              | Some devs \<Rightarrow>
                                  create_devices_entry c api_key scan_interval alarm_code
                                    devs st1)))))"

subsection \<open>The options step\<close>

text \<open>Python's \<^verbatim>\<open>len\<close> on a stored value.\<close>

definition py_len :: "pyval \<Rightarrow> exn + nat" where
  "py_len v =
     (case v of
        PNone \<Rightarrow> Inl TypeError
      | PStr s \<Rightarrow> Inr (length s)
      | PInt _ \<Rightarrow> Inl TypeError
      | PStrList xs \<Rightarrow> Inr (length xs)
      | PDevList ds \<Rightarrow> Inr (length ds))"

text \<open>
  Python's \<^verbatim>\<open>int\<close> on a stored value. The argument \<open>int_of_str\<close> is the built-in
  conversion of a string, \<open>None\<close> where it raises \<^verbatim>\<open>ValueError\<close>.
\<close>

definition py_int :: "(string \<Rightarrow> int option) \<Rightarrow> pyval \<Rightarrow> exn + int" where
  "py_int int_of_str v =
     (case v of
        PNone \<Rightarrow> Inl TypeError
      | PStr s \<Rightarrow> (case int_of_str s of None \<Rightarrow> Inl ValueError | Some i \<Rightarrow> Inr i)
      | PInt i \<Rightarrow> Inr i
      | PStrList _ \<Rightarrow> Inl TypeError
      | PDevList _ \<Rightarrow> Inl TypeError)"

definition getitem :: "pydict \<Rightarrow> string \<Rightarrow> exn + pyval" where
  "getitem d k = (case d k of None \<Rightarrow> Inl KeyError | Some v \<Rightarrow> Inr v)"

definition options_get_schema ::
  "flow_consts \<Rightarrow> (string \<Rightarrow> int option) \<Rightarrow> config_entry \<Rightarrow> exn + schema" where
  "options_get_schema c int_of_str config_entry =
     (case getitem (ce_data config_entry) (CONF_ALARM_CODE c) of
        Inl e \<Rightarrow> Inl e
      | Inr stored \<Rightarrow>
          (let alarm_code = (if stored = PNone then PStr ''1234567890'' else stored) in
           case getitem (ce_data config_entry) CONF_API_KEY of
             Inl e \<Rightarrow> Inl e
           | Inr api_key \<Rightarrow>
               (case getitem (ce_data config_entry) CONF_SCAN_INTERVAL of
                  Inl e \<Rightarrow> Inl e
                | Inr scan \<Rightarrow>
                    (case py_int int_of_str scan of
                       Inl e \<Rightarrow> Inl e
                     | Inr scan_interval \<Rightarrow>
                         (case getitem (ce_data config_entry) (OLARM_DEVICE_NAMES c) of
                            Inl e \<Rightarrow> Inl e
                          | Inr names \<Rightarrow>
                              Inr [\<lparr>field_key = CONF_API_KEY, field_required = True,
                                    field_default = Some api_key,
                                    field_validator = Cv_string\<rparr>,
                                   \<lparr>field_key = CONF_SCAN_INTERVAL, field_required = True,
                                    field_default = Some (PInt scan_interval),
                                    field_validator = Coerce_int_range_min 8\<rparr>,
                                   \<lparr>field_key = CONF_ALARM_CODE c, field_required = False,
                                    field_default = Some alarm_code,
                                    field_validator = Cv_string\<rparr>,
                                   \<lparr>field_key = CONF_OLARM_DEVICES c, field_required = False,
                                    field_default = None,
                                    field_validator = Cv_multi_select names\<rparr>])))))"

definition async_step_init ::
  "flow_consts \<Rightarrow> (string \<Rightarrow> int option) \<Rightarrow> config_entry \<Rightarrow> user_input option
     \<Rightarrow> exn + flow_result" where
  "async_step_init c int_of_str config_entry user_input =
     (case user_input of
        Some ui \<Rightarrow>
          (let alarm_code = stored_alarm_code ui;
               new = ce_data config_entry;
               new = new(CONF_ALARM_CODE c \<mapsto> alarm_code)
           in case getitem (ce_data config_entry) (OLARM_DEVICE_NAMES c) of
                Inl e \<Rightarrow> Inl e
              | Inr names \<Rightarrow>
                  (case py_len names of
                     Inl e \<Rightarrow> Inl e
                   | Inr n \<Rightarrow>
                       (let new = new(OLARM_DEVICE_AMOUNT c \<mapsto> PInt (int n));
                            new = new(CONF_SCAN_INTERVAL \<mapsto> PInt (ui_scan_interval ui));
                            new = new(CONF_API_KEY \<mapsto> PStr (ui_api_key ui))
                        in case ui_olarm_devices ui of
                             None \<Rightarrow> Inl KeyError
                           | Some selected \<Rightarrow>
                               Inr (Create_entry ''Olarm Sensors''
                                      (new(CONF_OLARM_DEVICES c \<mapsto> PStrList selected))))))
      | None \<Rightarrow>
          (case options_get_schema c int_of_str config_entry of
             Inl e \<Rightarrow> Inl e
           | Inr s \<Rightarrow> Inr (Show_form ''init'' s None)))"

text \<open>The default a schema shows for a key.\<close>

definition schema_default :: "schema \<Rightarrow> string \<Rightarrow> pyval option" where
  "schema_default s k =
     (case find (\<lambda>f. field_key f = k) s of None \<Rightarrow> None | Some f \<Rightarrow> field_default f)"

subsection \<open>Observations on a run\<close>

text \<open>The data of the entry a step creates, if it creates one.\<close>

definition created_entry :: "exn + flow_result \<Rightarrow> pydict option" where
  "created_entry r = (case r of Inr (Create_entry _ d) \<Rightarrow> Some d | _ \<Rightarrow> None)"

text \<open>The errors of the form a step shows, if it shows one.\<close>

definition shown_errors :: "exn + flow_result \<Rightarrow> errors option" where
  "shown_errors r = (case r of Inr (Show_form _ _ es) \<Rightarrow> es | _ \<Rightarrow> None)"

text \<open>The API keys of the device enumerations in a trace, in order.\<close>

fun enumeration_calls :: "event list \<Rightarrow> string list" where
  "enumeration_calls [] = []"
| "enumeration_calls (Get_olarm_devices k # es) = k # enumeration_calls es"
| "enumeration_calls (Log_warning # es) = enumeration_calls es"
| "enumeration_calls (Sleep n # es) = enumeration_calls es"
| "enumeration_calls (Update_data i # es) = enumeration_calls es"

text \<open>The coordinator that \<^verbatim>\<open>hass.data[DOMAIN]\<close> holds for a device id.\<close>

definition registered_coordinator :: "flow_consts \<Rightarrow> state \<Rightarrow> string \<Rightarrow> coordinator option" where
  "registered_coordinator c st i =
     (case hass_data st (DOMAIN c) of None \<Rightarrow> None | Some dd \<Rightarrow> dd i)"

text \<open>The dictionary of coordinators after the loop of lines 122 to 137 has run on all devices.\<close>

fun registered ::
  "config_entry \<Rightarrow> device list \<Rightarrow> (string \<rightharpoonup> coordinator) \<Rightarrow> (string \<rightharpoonup> coordinator)" where
  "registered te [] dd = dd"
| "registered te (dev # devs) dd =
     registered te devs
       (dd(deviceId dev \<mapsto>
             OlarmCoordinator te (deviceId dev) (deviceName dev) (deviceAlarmType dev)))"

text \<open>A state in which \<^verbatim>\<open>hass.data[DOMAIN]\<close> exists and is empty, with no call made yet.\<close>

definition fresh_state :: "flow_consts \<Rightarrow> state" where
  "fresh_state c = \<lparr>trace = [], hass_data = [DOMAIN c \<mapsto> Map.empty]\<rparr>"


text \<open>The value the created entry holds for a key.\<close>

definition entry_value :: "exn + flow_result \<Rightarrow> string \<Rightarrow> pyval option" where
  "entry_value r k = (case created_entry r of None \<Rightarrow> None | Some d \<Rightarrow> d k)"

text \<open>The schema of the form a step shows, if it shows one.\<close>

definition shown_schema :: "exn + flow_result \<Rightarrow> schema option" where
  "shown_schema r = (case r of Inr (Show_form _ s _) \<Rightarrow> Some s | _ \<Rightarrow> None)"


text \<open>A field of a schema offers a choice among values.\<close>

fun is_multi_select :: "validator \<Rightarrow> bool" where
  "is_multi_select Cv_string = False"
| "is_multi_select (Coerce_int_range_min n) = False"
| "is_multi_select (Cv_multi_select options) = True"

section \<open>Properties of the two steps\<close>

subsection \<open>The loop over the devices\<close>

lemma register_devices_all:
  "set (map deviceName devs) \<subseteq> set sd \<Longrightarrow> hass_data st (DOMAIN c) \<noteq> None \<Longrightarrow>
   snd (register_devices c te sd devs st) = Inr () \<and>
   trace (fst (register_devices c te sd devs st)) =
     trace st @ concat (map (\<lambda>d. [Sleep 2, Update_data (deviceId d)]) devs) \<and>
   hass_data (fst (register_devices c te sd devs st)) =
     (hass_data st)(DOMAIN c \<mapsto> registered te devs (the (hass_data st (DOMAIN c))))"
proof (induction devs arbitrary: st)
  case Nil
  then show ?case by (auto simp: map_upd_triv)
next
  case (Cons dev devs)
  then show ?case
    by (auto simp: Let_def)
qed

lemma register_devices_KeyError:
  "devs \<noteq> [] \<Longrightarrow> set (map deviceName devs) \<subseteq> set sd \<Longrightarrow>
   hass_data st (DOMAIN c) = None \<Longrightarrow>
   snd (register_devices c te sd devs st) = Inl KeyError \<and>
   hass_data (fst (register_devices c te sd devs st)) = hass_data st"
  by (cases devs) (simp_all add: Let_def)

lemma enumeration_calls_append:
  "enumeration_calls (xs @ ys) = enumeration_calls xs @ enumeration_calls ys"
  by (induction xs rule: enumeration_calls.induct) simp_all


lemma registered_other:
  "i \<notin> deviceId ` set devs \<Longrightarrow> registered te devs dd i = dd i"
  by (induction devs arbitrary: dd) auto

lemma registered_id:
  "i \<in> deviceId ` set devs \<Longrightarrow>
   \<exists>co. registered te devs dd i = Some co \<and> co_device_id co = i \<and>
        co_entry co = te \<and> co_device_name co \<in> deviceName ` set devs"
proof (induction devs arbitrary: dd)
  case Nil
  then show ?case by simp
next
  case (Cons a devs)
  let ?dd = "dd(deviceId a \<mapsto>
               OlarmCoordinator te (deviceId a) (deviceName a) (deviceAlarmType a))"
  show ?case
  proof (cases "i \<in> deviceId ` set devs")
    case True
    from Cons.IH [OF True] obtain co where
      "registered te devs ?dd i = Some co"
      "co_device_id co = i" "co_entry co = te"
      "co_device_name co \<in> deviceName ` set devs"
      by blast
    then show ?thesis by simp
  next
    case False
    with Cons.prems have eq: "i = deviceId a" by simp
    from False have "registered te devs ?dd i = ?dd i"
      by (rule registered_other)
    then show ?thesis using eq
      by (simp add: OlarmCoordinator_def)
  qed
qed

lemma registered_dom:
  "dom (registered te devs dd) = dom dd \<union> deviceId ` set devs"
  by (induction devs arbitrary: dd) auto

subsection \<open>The setup step\<close>

lemma create_devices_entry_unfold:
  "devs \<noteq> [] \<Longrightarrow>
   create_devices_entry c key scan alarm devs st =
     (case register_devices c
             (temp_entry c key scan (deviceFirmware (hd devs)) alarm (map deviceName devs) devs)
             (map deviceName devs) devs st of
        (st', Inl e) \<Rightarrow> (st', Inl e)
      | (st', Inr _) \<Rightarrow>
          (st', Inr (Create_entry ''Olarm Sensors''
             (entry_data c key scan (deviceFirmware (hd devs)) alarm (map deviceName devs) devs))))"
  by (cases devs) (simp_all add: create_devices_entry_def Let_def del: register_devices.simps)

lemma create_devices_entry_Inr:
  assumes "create_devices_entry c key scan alarm devs st = (st', Inr r)"
  shows "devs \<noteq> [] \<and> hass_data st (DOMAIN c) \<noteq> None \<and>
     r = Create_entry ''Olarm Sensors''
           (entry_data c key scan (deviceFirmware (hd devs)) alarm (map deviceName devs) devs) \<and>
     trace st' = trace st @ concat (map (\<lambda>d. [Sleep 2, Update_data (deviceId d)]) devs) \<and>
     hass_data st' =
       (hass_data st)(DOMAIN c \<mapsto>
          registered
            (temp_entry c key scan (deviceFirmware (hd devs)) alarm (map deviceName devs) devs)
            devs (the (hass_data st (DOMAIN c))))"
proof -
  let ?te = "temp_entry c key scan (deviceFirmware (hd devs)) alarm (map deviceName devs) devs"
  let ?run = "register_devices c ?te (map deviceName devs) devs st"
  have ne: "devs \<noteq> []"
    using assms by (auto simp: create_devices_entry_def)
  note run = create_devices_entry_unfold [OF ne, of c key scan alarm st]
  have sub: "set (map deviceName devs) \<subseteq> set (map deviceName devs)" by simp
  have dom: "hass_data st (DOMAIN c) \<noteq> None"
  proof
    assume "hass_data st (DOMAIN c) = None"
    from register_devices_KeyError [OF ne sub this, of ?te]
    have "snd ?run = Inl KeyError" by simp
    with assms run show False by (auto split: prod.splits sum.splits)
  qed
  note all = register_devices_all [OF sub dom, of ?te]
  from assms run all have
    "r = Create_entry ''Olarm Sensors''
           (entry_data c key scan (deviceFirmware (hd devs)) alarm (map deviceName devs) devs)"
    "st' = fst ?run"
    by (auto split: prod.splits sum.splits)
  with all ne dom show ?thesis by simp
qed

lemma create_devices_entry_ok:
  assumes "devs \<noteq> []" and "hass_data st (DOMAIN c) \<noteq> None"
  shows "\<exists>st'. create_devices_entry c key scan alarm devs st =
           (st', Inr (Create_entry ''Olarm Sensors''
             (entry_data c key scan (deviceFirmware (hd devs)) alarm (map deviceName devs) devs)))"
proof -
  let ?te = "temp_entry c key scan (deviceFirmware (hd devs)) alarm (map deviceName devs) devs"
  have sub: "set (map deviceName devs) \<subseteq> set (map deviceName devs)" by simp
  note all = register_devices_all [OF sub assms(2), of ?te]
  show ?thesis
    unfolding create_devices_entry_unfold [OF assms(1)] using all
    by (auto split: prod.splits sum.splits)
qed

lemma validate_input_empty_key: "ui_api_key ui = [] \<Longrightarrow> validate_input ui \<noteq> []"
  by (simp add: validate_input_def Let_def)


lemma update_not_Nil: "AList.update k v es \<noteq> []"
  by (cases es) auto

lemma async_step_user_Create_entry:
  assumes "async_step_user c api st (Some ui) = (st', Inr (Create_entry t d))"
  shows "validate_input ui = [] \<and>
    (\<exists>devs. devs \<noteq> [] \<and>
       (ui_api_key ui = ''mock_api_key'' \<and> devs = mock_devices \<or>
        ui_api_key ui \<noteq> ''mock_api_key'' \<and> api (ui_api_key ui) = Returns (Some devs)) \<and>
       t = ''Olarm Sensors'' \<and>
       d = entry_data c (ui_api_key ui) (ui_scan_interval ui) (deviceFirmware (hd devs))
             (stored_alarm_code ui) (map deviceName devs) devs \<and>
       hass_data st (DOMAIN c) \<noteq> None \<and>
       trace st' =
         trace st @
         (if ui_api_key ui = ''mock_api_key'' then [] else [Get_olarm_devices (ui_api_key ui)]) @
         concat (map (\<lambda>d. [Sleep 2, Update_data (deviceId d)]) devs) \<and>
       hass_data st' =
         (hass_data st)(DOMAIN c \<mapsto>
            registered
              (temp_entry c (ui_api_key ui) (ui_scan_interval ui) (deviceFirmware (hd devs))
                 (stored_alarm_code ui) (map deviceName devs) devs)
              devs (the (hass_data st (DOMAIN c)))))"
proof -
  let ?key = "ui_api_key ui"
  obtain st1 res where f: "fetch_devices c api ?key (validate_input ui) st = (st1, res)"
    by (cases "fetch_devices c api ?key (validate_input ui) st")
  from assms f obtain errs devs where
    res: "res = Inr (errs, Some (Some devs))" and errs: "errs = []" and
    cr: "create_devices_entry c ?key (ui_scan_interval ui) (stored_alarm_code ui) devs st1 =
           (st', Inr (Create_entry t d))"
    by (auto simp: async_step_user_def Let_def show_setup_form_def update_not_Nil
             split: sum.splits option.splits if_splits prod.splits)
  from f res errs have v: "validate_input ui = []"
    by (auto simp: fetch_devices_def Let_def update_not_Nil split: if_splits api_result.splits)
  then have key: "?key \<noteq> []"
    using validate_input_empty_key by blast
  from f res key have src:
    "(?key = ''mock_api_key'' \<and> devs = mock_devices \<and> st1 = st) \<or>
     (?key \<noteq> ''mock_api_key'' \<and> api ?key = Returns (Some devs) \<and>
      st1 = st\<lparr>trace := trace st @ [Get_olarm_devices ?key]\<rparr>)"
    by (auto simp: fetch_devices_def Let_def split: if_splits api_result.splits)
  note inv = create_devices_entry_Inr [OF cr]
  from src show ?thesis
  proof
    assume a: "?key = ''mock_api_key'' \<and> devs = mock_devices \<and> st1 = st"
    show ?thesis
      using v inv a by (intro conjI exI [of _ devs]) simp_all
  next
    assume a: "?key \<noteq> ''mock_api_key'' \<and> api ?key = Returns (Some devs) \<and>
      st1 = st\<lparr>trace := trace st @ [Get_olarm_devices ?key]\<rparr>"
    show ?thesis
      using v inv a by (intro conjI exI [of _ devs]) simp_all
  qed
qed

lemma register_devices_enumeration_calls:
  "enumeration_calls (trace (fst (register_devices c te sd devs st))) =
   enumeration_calls (trace st)"
proof (induction devs arbitrary: st)
  case Nil
  show ?case by simp
next
  case (Cons dev devs)
  show ?case
  proof (cases "deviceName dev \<in> set sd")
    case False
    then show ?thesis using Cons.IH by simp
  next
    case True
    show ?thesis
    proof (cases "hass_data st (DOMAIN c)")
      case None
      with True show ?thesis by (simp add: Let_def enumeration_calls_append)
    next
      case (Some dd)
      with True show ?thesis
        by (simp add: Let_def Cons.IH enumeration_calls_append)
    qed
  qed
qed

lemma create_devices_entry_enumeration_calls:
  "enumeration_calls (trace (fst (create_devices_entry c key scan alarm devs st))) =
   enumeration_calls (trace st)"
proof (cases "devs = []")
  case True
  then show ?thesis by (simp add: create_devices_entry_def)
next
  case False
  show ?thesis
    unfolding create_devices_entry_unfold [OF False]
    using register_devices_enumeration_calls
      [of c "temp_entry c key scan (deviceFirmware (hd devs)) alarm (map deviceName devs) devs"
          "map deviceName devs" devs st]
    by (auto split: prod.splits sum.splits)
qed

lemma async_step_user_forbidden:
  assumes "ui_api_key ui \<noteq> ''mock_api_key''" and "ui_api_key ui \<noteq> []"
    and "api (ui_api_key ui) = Raises_APIForbiddenError"
  shows "async_step_user c api st (Some ui) =
    (st\<lparr>trace := trace st @ [Get_olarm_devices (ui_api_key ui), Log_warning]\<rparr>,
     Inl UnboundLocalError)"
  using assms by (simp add: async_step_user_def fetch_devices_def Let_def)

lemma created_entry_Some_iff:
  "created_entry r = Some d \<longleftrightarrow> (\<exists>t. r = Inr (Create_entry t d))"
  by (auto simp: created_entry_def split: sum.splits flow_result.splits)

lemma async_step_user_None:
  "async_step_user c api st None = (st, Inr (show_setup_form c None))"
  by (simp add: async_step_user_def)

lemma async_step_user_created:
  assumes "created_entry (snd (async_step_user c api st user_input)) = Some d"
  shows "\<exists>ui devs. user_input = Some ui \<and> validate_input ui = [] \<and> devs \<noteq> [] \<and>
       (ui_api_key ui = ''mock_api_key'' \<and> devs = mock_devices \<or>
        ui_api_key ui \<noteq> ''mock_api_key'' \<and> api (ui_api_key ui) = Returns (Some devs)) \<and>
       d = entry_data c (ui_api_key ui) (ui_scan_interval ui) (deviceFirmware (hd devs))
             (stored_alarm_code ui) (map deviceName devs) devs \<and>
       hass_data st (DOMAIN c) \<noteq> None \<and>
       trace (fst (async_step_user c api st user_input)) =
         trace st @
         (if ui_api_key ui = ''mock_api_key'' then [] else [Get_olarm_devices (ui_api_key ui)]) @
         concat (map (\<lambda>d. [Sleep 2, Update_data (deviceId d)]) devs) \<and>
       hass_data (fst (async_step_user c api st user_input)) =
         (hass_data st)(DOMAIN c \<mapsto>
            registered
              (temp_entry c (ui_api_key ui) (ui_scan_interval ui) (deviceFirmware (hd devs))
                 (stored_alarm_code ui) (map deviceName devs) devs)
              devs (the (hass_data st (DOMAIN c))))"
proof (cases user_input)
  case None
  with assms show ?thesis
    by (simp add: async_step_user_None created_entry_def show_setup_form_def)
next
  case (Some ui)
  obtain st' r where run: "async_step_user c api st (Some ui) = (st', r)"
    by (cases "async_step_user c api st (Some ui)")
  with assms Some obtain t where "r = Inr (Create_entry t d)"
    by (auto simp: created_entry_Some_iff)
  with run have "async_step_user c api st (Some ui) = (st', Inr (Create_entry t d))"
    by simp
  from async_step_user_Create_entry [OF this] run Some show ?thesis
    by auto
qed

lemma async_step_user_mock:
  assumes "8 \<le> scan" and "hass_data st (DOMAIN c) \<noteq> None"
  shows "snd (async_step_user c api st
           (Some \<lparr>ui_api_key = ''mock_api_key'', ui_scan_interval = scan,
                  ui_alarm_code = code, ui_olarm_devices = sel\<rparr>)) =
         Inr (Create_entry ''Olarm Sensors''
           (entry_data c ''mock_api_key'' scan ''1.0''
              (if code = ''1234567890'' then PNone else PStr code)
              [''Device1'', ''Device2''] mock_devices))"
proof -
  have ne: "mock_devices \<noteq> []" by (simp add: mock_devices_def)
  from create_devices_entry_ok [OF ne assms(2),
      of "''mock_api_key''" scan "if code = ''1234567890'' then PNone else PStr code"]
  show ?thesis using assms(1)
    by (auto simp: async_step_user_def fetch_devices_def validate_input_def Let_def
          stored_alarm_code_def mock_devices_def)
qed

lemma async_step_user_returns:
  assumes "8 \<le> scan" and "hass_data st (DOMAIN c) \<noteq> None"
    and "key \<noteq> ''mock_api_key''" and "key \<noteq> []" and "api key = Returns (Some devs)"
    and "devs \<noteq> []"
  shows "snd (async_step_user c api st
           (Some \<lparr>ui_api_key = key, ui_scan_interval = scan,
                  ui_alarm_code = code, ui_olarm_devices = sel\<rparr>)) =
         Inr (Create_entry ''Olarm Sensors''
           (entry_data c key scan (deviceFirmware (hd devs))
              (if code = ''1234567890'' then PNone else PStr code)
              (map deviceName devs) devs))"
proof -
  let ?st1 = "st\<lparr>trace := trace st @ [Get_olarm_devices key]\<rparr>"
  have dom: "hass_data ?st1 (DOMAIN c) \<noteq> None" using assms(2) by simp
  from create_devices_entry_ok [OF assms(6) dom,
      of key scan "if code = ''1234567890'' then PNone else PStr code"]
  show ?thesis using assms(1,3,4,5)
    by (auto simp: async_step_user_def fetch_devices_def validate_input_def Let_def
          stored_alarm_code_def)
qed

lemma entry_data_lookup:
  assumes "distinct (entry_keys c)"
  shows "entry_data c key scan fw alarm names devs CONF_API_KEY = Some (PStr key)"
    and "entry_data c key scan fw alarm names devs CONF_SCAN_INTERVAL = Some (PInt scan)"
    and "entry_data c key scan fw alarm names devs (CONF_DEVICE_FIRMWARE c) = Some (PStr fw)"
    and "entry_data c key scan fw alarm names devs (CONF_ALARM_CODE c) = Some alarm"
    and "entry_data c key scan fw alarm names devs (CONF_OLARM_DEVICES c) = Some (PStrList names)"
    and "entry_data c key scan fw alarm names devs (OLARM_DEVICES c) = Some (PDevList devs)"
    and "entry_data c key scan fw alarm names devs (OLARM_DEVICE_AMOUNT c) =
           Some (PInt (int (length devs)))"
    and "entry_data c key scan fw alarm names devs (OLARM_DEVICE_NAMES c) = Some (PStrList names)"
  using assms by (auto simp: entry_data_def entry_keys_def)

lemma entry_data_dom:
  "dom (entry_data c key scan fw alarm names devs) = set (entry_keys c)"
  by (auto simp: entry_data_def entry_keys_def)

lemma validate_input_ignores_selection:
  "validate_input (ui\<lparr>ui_olarm_devices := sel\<rparr>) = validate_input ui"
  by (simp add: validate_input_def Let_def cong: if_cong)

lemma stored_alarm_code_ignores_selection:
  "stored_alarm_code (ui\<lparr>ui_olarm_devices := sel\<rparr>) = stored_alarm_code ui"
  by (simp add: stored_alarm_code_def)

lemma async_step_user_ignores_selection:
  "async_step_user c api st (Some (ui\<lparr>ui_olarm_devices := sel\<rparr>)) =
   async_step_user c api st (Some ui)"
  by (simp add: async_step_user_def validate_input_ignores_selection
        stored_alarm_code_ignores_selection)

lemma registered_coordinator_after:
  assumes "hass_data st' = (hass_data st)(DOMAIN c \<mapsto> registered te devs dd)"
    and "hass_data st (DOMAIN c) = Some dd"
  shows "(\<forall>dev \<in> set devs. \<exists>co. registered_coordinator c st' (deviceId dev) = Some co \<and>
            co_device_id co = deviceId dev \<and> co_device_name co \<in> deviceName ` set devs) \<and>
         (\<forall>i. i \<notin> deviceId ` set devs \<longrightarrow>
            registered_coordinator c st' i = registered_coordinator c st i)"
proof (intro conjI ballI allI impI)
  fix dev assume "dev \<in> set devs"
  then have "deviceId dev \<in> deviceId ` set devs" by simp
  from registered_id [OF this, of te dd] assms(1)
  show "\<exists>co. registered_coordinator c st' (deviceId dev) = Some co \<and>
            co_device_id co = deviceId dev \<and> co_device_name co \<in> deviceName ` set devs"
    by (auto simp: registered_coordinator_def)
next
  fix i assume "i \<notin> deviceId ` set devs"
  from registered_other [OF this, of te dd] assms
  show "registered_coordinator c st' i = registered_coordinator c st i"
    by (simp add: registered_coordinator_def)
qed

lemma async_step_user_empty_enumeration:
  assumes "validate_input ui = []" and "ui_api_key ui \<noteq> ''mock_api_key''"
    and "api (ui_api_key ui) = Returns (Some [])"
  shows "async_step_user c api st (Some ui) =
    (st\<lparr>trace := trace st @ [Get_olarm_devices (ui_api_key ui)]\<rparr>, Inl IndexError)"
proof -
  from assms(1) have "ui_api_key ui \<noteq> []" using validate_input_empty_key by blast
  with assms show ?thesis
    by (simp add: async_step_user_def fetch_devices_def create_devices_entry_def Let_def)
qed

lemma async_step_user_entry_nonempty:
  assumes "created_entry (snd (async_step_user c api st (Some ui))) = Some d"
    and "api (ui_api_key ui) = Returns (Some devs)" and "ui_api_key ui \<noteq> ''mock_api_key''"
  shows "devs \<noteq> []"
  using async_step_user_created [OF assms(1)] assms(2,3) by auto

lemma validation_errors_no_effects:
  assumes "validate_input ui \<noteq> []"
  shows "created_entry (snd (async_step_user c api st (Some ui))) = None \<and>
         hass_data (fst (async_step_user c api st (Some ui))) = hass_data st"
  using assms
  by (auto simp: async_step_user_def fetch_devices_def Let_def created_entry_def
        show_setup_form_def update_not_Nil
        split: api_result.splits option.splits)

lemma validation_errors_show_form:
  assumes "validate_input ui \<noteq> []"
    and "ui_api_key ui = ''mock_api_key'' \<or> ui_api_key ui = [] \<or>
         (\<exists>json. api (ui_api_key ui) = Returns json)"
  shows "shown_errors (snd (async_step_user c api st (Some ui))) = Some (validate_input ui) \<or>
         shown_errors (snd (async_step_user c api st (Some ui))) =
           Some (AList.update (AUTHENTICATION_ERROR c) ''Invalid credentials!''
                   (validate_input ui))"
  using assms
  by (auto simp: async_step_user_def fetch_devices_def Let_def shown_errors_def
        show_setup_form_def update_not_Nil
        split: api_result.splits option.splits)

subsection \<open>The options step\<close>

lemma async_step_init_created:
  assumes "created_entry (async_step_init c ios e (Some ui)) = Some new"
  shows "\<exists>names n sel.
     ce_data e (OLARM_DEVICE_NAMES c) = Some names \<and> py_len names = Inr n \<and>
     ui_olarm_devices ui = Some sel \<and>
     new = (ce_data e)
             (CONF_ALARM_CODE c \<mapsto> stored_alarm_code ui,
              OLARM_DEVICE_AMOUNT c \<mapsto> PInt (int n),
              CONF_SCAN_INTERVAL \<mapsto> PInt (ui_scan_interval ui),
              CONF_API_KEY \<mapsto> PStr (ui_api_key ui),
              CONF_OLARM_DEVICES c \<mapsto> PStrList sel)"
  using assms
  by (auto simp: async_step_init_def getitem_def created_entry_def Let_def
        split: option.splits sum.splits)

lemma async_step_init_ok:
  assumes "ce_data e (OLARM_DEVICE_NAMES c) = Some names" and "py_len names = Inr n"
    and "ui_olarm_devices ui = Some sel"
  shows "async_step_init c ios e (Some ui) =
     Inr (Create_entry ''Olarm Sensors''
       ((ce_data e)
             (CONF_ALARM_CODE c \<mapsto> stored_alarm_code ui,
              OLARM_DEVICE_AMOUNT c \<mapsto> PInt (int n),
              CONF_SCAN_INTERVAL \<mapsto> PInt (ui_scan_interval ui),
              CONF_API_KEY \<mapsto> PStr (ui_api_key ui),
              CONF_OLARM_DEVICES c \<mapsto> PStrList sel)))"
  using assms by (simp add: async_step_init_def getitem_def Let_def)

lemma distinct_entry_keys:
  assumes "distinct (entry_keys c)"
  shows "CONF_API_KEY \<noteq> CONF_SCAN_INTERVAL" "CONF_API_KEY \<noteq> CONF_DEVICE_FIRMWARE c"
    "CONF_API_KEY \<noteq> CONF_ALARM_CODE c" "CONF_API_KEY \<noteq> CONF_OLARM_DEVICES c"
    "CONF_API_KEY \<noteq> OLARM_DEVICES c" "CONF_API_KEY \<noteq> OLARM_DEVICE_AMOUNT c"
    "CONF_API_KEY \<noteq> OLARM_DEVICE_NAMES c"
    "CONF_SCAN_INTERVAL \<noteq> CONF_DEVICE_FIRMWARE c" "CONF_SCAN_INTERVAL \<noteq> CONF_ALARM_CODE c"
    "CONF_SCAN_INTERVAL \<noteq> CONF_OLARM_DEVICES c" "CONF_SCAN_INTERVAL \<noteq> OLARM_DEVICES c"
    "CONF_SCAN_INTERVAL \<noteq> OLARM_DEVICE_AMOUNT c" "CONF_SCAN_INTERVAL \<noteq> OLARM_DEVICE_NAMES c"
    "CONF_DEVICE_FIRMWARE c \<noteq> CONF_ALARM_CODE c" "CONF_DEVICE_FIRMWARE c \<noteq> CONF_OLARM_DEVICES c"
    "CONF_DEVICE_FIRMWARE c \<noteq> OLARM_DEVICES c" "CONF_DEVICE_FIRMWARE c \<noteq> OLARM_DEVICE_AMOUNT c"
    "CONF_DEVICE_FIRMWARE c \<noteq> OLARM_DEVICE_NAMES c"
    "CONF_ALARM_CODE c \<noteq> CONF_OLARM_DEVICES c" "CONF_ALARM_CODE c \<noteq> OLARM_DEVICES c"
    "CONF_ALARM_CODE c \<noteq> OLARM_DEVICE_AMOUNT c" "CONF_ALARM_CODE c \<noteq> OLARM_DEVICE_NAMES c"
    "CONF_OLARM_DEVICES c \<noteq> OLARM_DEVICES c" "CONF_OLARM_DEVICES c \<noteq> OLARM_DEVICE_AMOUNT c"
    "CONF_OLARM_DEVICES c \<noteq> OLARM_DEVICE_NAMES c"
    "OLARM_DEVICES c \<noteq> OLARM_DEVICE_AMOUNT c" "OLARM_DEVICES c \<noteq> OLARM_DEVICE_NAMES c"
    "OLARM_DEVICE_AMOUNT c \<noteq> OLARM_DEVICE_NAMES c"
  using assms by (auto simp: entry_keys_def)

lemma distinct_sample_consts: "distinct (entry_keys sample_consts)"
  by (simp add: entry_keys_def sample_consts_def CONF_API_KEY_def CONF_SCAN_INTERVAL_def)


lemma options_get_schema_alarm_default:
  assumes "distinct (entry_keys c)" and "options_get_schema c ios e = Inr s"
  shows "\<exists>stored. ce_data e (CONF_ALARM_CODE c) = Some stored \<and>
     schema_default s (CONF_ALARM_CODE c) =
       Some (if stored = PNone then PStr ''1234567890'' else stored)"
proof -
  note ks = distinct_entry_keys [OF assms(1)]
  from assms(2) obtain stored api_key scan_interval names where
    st: "ce_data e (CONF_ALARM_CODE c) = Some stored" and
    s: "s = [\<lparr>field_key = CONF_API_KEY, field_required = True,
              field_default = Some api_key, field_validator = Cv_string\<rparr>,
             \<lparr>field_key = CONF_SCAN_INTERVAL, field_required = True,
              field_default = Some (PInt scan_interval),
              field_validator = Coerce_int_range_min 8\<rparr>,
             \<lparr>field_key = CONF_ALARM_CODE c, field_required = False,
              field_default = Some (if stored = PNone then PStr ''1234567890'' else stored),
              field_validator = Cv_string\<rparr>,
             \<lparr>field_key = CONF_OLARM_DEVICES c, field_required = False,
              field_default = None, field_validator = Cv_multi_select names\<rparr>]"
    by (auto simp: options_get_schema_def getitem_def Let_def
          split: option.splits sum.splits)
  show ?thesis
    using st ks by (simp add: s schema_default_def)
qed




lemma stored_alarm_code_round_trip:
  assumes "stored = stored_alarm_code ui"
    and "PStr (ui_alarm_code ui2) = (if stored = PNone then PStr ''1234567890'' else stored)"
  shows "stored_alarm_code ui2 = stored"
  using assms by (auto simp: stored_alarm_code_def split: if_splits)

lemma async_step_user_shown_schema:
  "shown_schema (snd (async_step_user c api st user_input)) = None \<or>
   shown_schema (snd (async_step_user c api st user_input)) = Some (setup_get_schema c)"
proof (cases user_input)
  case None
  then show ?thesis
    by (simp add: async_step_user_None shown_schema_def show_setup_form_def)
next
  case (Some ui)
  show ?thesis
  proof (cases "created_entry (snd (async_step_user c api st user_input))")
    case (Some d)
    then show ?thesis
      by (auto simp: created_entry_Some_iff shown_schema_def)
  next
    case None
    obtain st1 res where f:
      "fetch_devices c api (ui_api_key ui) (validate_input ui) st = (st1, res)"
      by (cases "fetch_devices c api (ui_api_key ui) (validate_input ui) st")
    show ?thesis
    proof (cases res)
      case (Inl e)
      with f Some show ?thesis
        by (simp add: async_step_user_def Let_def shown_schema_def)
    next
      case (Inr p)
      obtain errs json where p: "p = (errs, json)" by (cases p)
      show ?thesis
      proof (cases json)
        case None
        with f Inr p Some show ?thesis
          by (simp add: async_step_user_def Let_def shown_schema_def)
      next
        case (Some j)
        note j = this
        show ?thesis
        proof (cases "(if j = None then
                         AList.update (AUTHENTICATION_ERROR c) ''Invalid credentials!'' errs
                       else errs) \<noteq> []")
          case True
          with f Inr p j \<open>user_input = Some ui\<close> show ?thesis
            by (simp add: async_step_user_def Let_def shown_schema_def show_setup_form_def)
        next
          case False
          then obtain devs where devs: "j = Some devs"
            by (cases j) (auto simp: update_not_Nil)
          obtain st2 r where cr:
            "create_devices_entry c (ui_api_key ui) (ui_scan_interval ui)
               (stored_alarm_code ui) devs st1 = (st2, r)"
            by (cases "create_devices_entry c (ui_api_key ui) (ui_scan_interval ui)
               (stored_alarm_code ui) devs st1")
          have run: "async_step_user c api st user_input = (st2, r)"
            using f Inr p j False devs cr \<open>user_input = Some ui\<close>
            by (simp add: async_step_user_def Let_def)
          show ?thesis
          proof (cases r)
            case (Inl e)
            with run show ?thesis by (simp add: shown_schema_def)
          next
            case (Inr fr)
            with cr create_devices_entry_Inr [of c "ui_api_key ui" "ui_scan_interval ui"
                "stored_alarm_code ui" devs st1 st2 fr] run
            show ?thesis by (auto simp: shown_schema_def)
          qed
        qed
      qed
    qed
  qed
qed

lemma setup_get_schema_no_selection:
  assumes "distinct (entry_keys c)"
  shows "CONF_OLARM_DEVICES c \<notin> field_key ` set (setup_get_schema c) \<and>
         (\<forall>f \<in> set (setup_get_schema c). \<not> is_multi_select (field_validator f))"
  using distinct_entry_keys [OF assms] by (auto simp: setup_get_schema_def)



lemma stored_alarm_code_cases:
  "stored_alarm_code ui = PNone \<and> ui_alarm_code ui = ''1234567890'' \<or>
   stored_alarm_code ui = PStr (ui_alarm_code ui) \<and> ui_alarm_code ui \<noteq> ''1234567890''"
  by (simp add: stored_alarm_code_def)

section \<open>The claims\<close>

text \<open>
  Claim C7: for every initial-setup submission whose API key is neither empty nor
  \<^verbatim>\<open>"mock_api_key"\<close>, the step calls \<^verbatim>\<open>get_olarm_devices\<close> exactly once,
  with the submitted key, whatever the call does; the sleeps and the coordinator
  updates that follow add no enumeration call.
\<close>

theorem enumeration_once:
  assumes "ui_api_key ui \<noteq> ''mock_api_key''" and "ui_api_key ui \<noteq> []"
  shows "enumeration_calls (trace (fst (async_step_user c api st (Some ui)))) =
         enumeration_calls (trace st) @ [ui_api_key ui]"
proof (cases "api (ui_api_key ui)")
  case (Returns json)
  show ?thesis
  proof (cases json)
    case None
    with Returns assms show ?thesis
      by (simp add: async_step_user_def fetch_devices_def Let_def update_not_Nil
            enumeration_calls_append)
  next
    case (Some devs)
    with Returns assms show ?thesis
      by (simp add: async_step_user_def fetch_devices_def Let_def
            create_devices_entry_enumeration_calls enumeration_calls_append)
  qed
next
  case Raises_APIForbiddenError
  with assms show ?thesis
    by (simp add: async_step_user_forbidden enumeration_calls_append)
next
  case Raises_other
  with assms show ?thesis
    by (simp add: async_step_user_def fetch_devices_def Let_def enumeration_calls_append)
qed

theorem enumeration_once_witness:
  "''user_key'' \<noteq> ''mock_api_key'' \<and> ''user_key'' \<noteq> [] \<and>
   enumeration_calls (trace (fst (async_step_user sample_consts
      (\<lambda>_. Returns (Some mock_devices)) (fresh_state sample_consts)
      (Some \<lparr>ui_api_key = ''user_key'', ui_scan_interval = 10,
             ui_alarm_code = ''1234567890'', ui_olarm_devices = None\<rparr>)))) =
   [''user_key'']"
  using enumeration_once
    [of "\<lparr>ui_api_key = ''user_key'', ui_scan_interval = 10,
          ui_alarm_code = ''1234567890'', ui_olarm_devices = None\<rparr>"
        sample_consts "\<lambda>_. Returns (Some mock_devices)" "fresh_state sample_consts"]
  by (simp add: fresh_state_def)

text \<open>
  Claim C1: a submission with the key \<^verbatim>\<open>"wrong_key"\<close> and the scan interval 10,
  for which the enumeration raises \<^verbatim>\<open>APIForbiddenError\<close>. The exception is caught
  and logged and no entry is created, but the step does not return the form: the test
  \<^verbatim>\<open>json is None\<close> reads the unbound local and raises \<^verbatim>\<open>UnboundLocalError\<close>.
\<close>

theorem forbidden_submission_raises:
  "snd (async_step_user sample_consts (\<lambda>_. Raises_APIForbiddenError)
          (fresh_state sample_consts)
          (Some \<lparr>ui_api_key = ''wrong_key'', ui_scan_interval = 10,
                 ui_alarm_code = ''1234567890'', ui_olarm_devices = None\<rparr>)) =
     Inl UnboundLocalError \<and>
   trace (fst (async_step_user sample_consts (\<lambda>_. Raises_APIForbiddenError)
          (fresh_state sample_consts)
          (Some \<lparr>ui_api_key = ''wrong_key'', ui_scan_interval = 10,
                 ui_alarm_code = ''1234567890'', ui_olarm_devices = None\<rparr>))) =
     [Get_olarm_devices ''wrong_key'', Log_warning] \<and>
   shown_errors (snd (async_step_user sample_consts (\<lambda>_. Raises_APIForbiddenError)
          (fresh_state sample_consts)
          (Some \<lparr>ui_api_key = ''wrong_key'', ui_scan_interval = 10,
                 ui_alarm_code = ''1234567890'', ui_olarm_devices = None\<rparr>))) = None"
  by (simp add: async_step_user_forbidden fresh_state_def shown_errors_def)

text \<open>
  Claim C5: when the setup step creates an entry, its data holds exactly the eight keys
  with the collected values: the submitted API key and scan interval, the alarm code
  (\<^verbatim>\<open>None\<close> for the sentinel \<^verbatim>\<open>"1234567890"\<close>, the entered string otherwise), the
  firmware of the first device, the names of the devices (twice), the device list and
  its length. The device list is the one the enumeration returned, or the built-in list
  for the key \<^verbatim>\<open>"mock_api_key"\<close>.
\<close>

theorem setup_entry_data:
  assumes "distinct (entry_keys c)"
    and "created_entry (snd (async_step_user c api st (Some ui))) = Some d"
  shows "\<exists>dev0 rest.
     (ui_api_key ui = ''mock_api_key'' \<and> dev0 # rest = mock_devices \<or>
      ui_api_key ui \<noteq> ''mock_api_key'' \<and> api (ui_api_key ui) = Returns (Some (dev0 # rest))) \<and>
     d CONF_API_KEY = Some (PStr (ui_api_key ui)) \<and>
     d CONF_SCAN_INTERVAL = Some (PInt (ui_scan_interval ui)) \<and>
     d (CONF_ALARM_CODE c) =
       Some (if ui_alarm_code ui = ''1234567890'' then PNone else PStr (ui_alarm_code ui)) \<and>
     d (CONF_DEVICE_FIRMWARE c) = Some (PStr (deviceFirmware dev0)) \<and>
     d (CONF_OLARM_DEVICES c) = Some (PStrList (map deviceName (dev0 # rest))) \<and>
     d (OLARM_DEVICE_NAMES c) = Some (PStrList (map deviceName (dev0 # rest))) \<and>
     d (OLARM_DEVICES c) = Some (PDevList (dev0 # rest)) \<and>
     d (OLARM_DEVICE_AMOUNT c) = Some (PInt (int (length (dev0 # rest)))) \<and>
     dom d = set (entry_keys c)"
proof -
  from async_step_user_created [OF assms(2)] obtain devs where
    ne: "devs \<noteq> []" and
    src: "ui_api_key ui = ''mock_api_key'' \<and> devs = mock_devices \<or>
          ui_api_key ui \<noteq> ''mock_api_key'' \<and> api (ui_api_key ui) = Returns (Some devs)" and
    d: "d = entry_data c (ui_api_key ui) (ui_scan_interval ui) (deviceFirmware (hd devs))
             (stored_alarm_code ui) (map deviceName devs) devs"
    by auto
  from ne obtain dev0 rest where devs: "devs = dev0 # rest" by (cases devs) auto
  show ?thesis
    using src d devs entry_data_lookup [OF assms(1)] entry_data_dom
    by (intro exI [of _ dev0] exI [of _ rest]) (auto simp: stored_alarm_code_def)
qed

theorem setup_entry_data_witness:
  "distinct (entry_keys sample_consts) \<and>
   created_entry (snd (async_step_user sample_consts
      (\<lambda>_. Returns (Some [\<lparr>deviceName = ''Home'', deviceFirmware = ''2.3'',
                             deviceId = ''77'', deviceAlarmType = ''Paradox''\<rparr>]))
      (fresh_state sample_consts)
      (Some \<lparr>ui_api_key = ''user_key'', ui_scan_interval = 10,
             ui_alarm_code = ''4321'', ui_olarm_devices = None\<rparr>))) =
     Some (entry_data sample_consts ''user_key'' 10 ''2.3'' (PStr ''4321'') [''Home'']
             [\<lparr>deviceName = ''Home'', deviceFirmware = ''2.3'', deviceId = ''77'',
               deviceAlarmType = ''Paradox''\<rparr>]) \<and>
   entry_data sample_consts ''user_key'' 10 ''2.3'' (PStr ''4321'') [''Home'']
     [\<lparr>deviceName = ''Home'', deviceFirmware = ''2.3'', deviceId = ''77'',
       deviceAlarmType = ''Paradox''\<rparr>] (CONF_DEVICE_FIRMWARE sample_consts) =
     Some (PStr ''2.3'')"
proof -
  let ?devs = "[\<lparr>deviceName = ''Home'', deviceFirmware = ''2.3'', deviceId = ''77'',
                 deviceAlarmType = ''Paradox''\<rparr>]"
  let ?api = "\<lambda>_::string. Returns (Some ?devs)"
  let ?ui = "\<lparr>ui_api_key = ''user_key'', ui_scan_interval = 10,
             ui_alarm_code = ''4321'', ui_olarm_devices = None\<rparr>"
  have k: "distinct (entry_keys sample_consts)"
    by (simp add: entry_keys_def sample_consts_def CONF_API_KEY_def CONF_SCAN_INTERVAL_def)
  have dom: "hass_data (fresh_state sample_consts) (DOMAIN sample_consts) \<noteq> None"
    by (simp add: fresh_state_def)
  have h: "created_entry (snd (async_step_user sample_consts ?api
      (fresh_state sample_consts) (Some ?ui))) =
     Some (entry_data sample_consts ''user_key'' 10 ''2.3'' (PStr ''4321'') [''Home''] ?devs)"
    using async_step_user_returns [OF _ dom, of 10 "''user_key''" ?api ?devs "''4321''" None]
    by (simp add: created_entry_def)
  from setup_entry_data [OF k h] show ?thesis
    using k h by auto
qed

text \<open>
  Claim C10: a submission that passes the validation, for which the enumeration returns
  the empty list. No error branch is taken, and the read \<^verbatim>\<open>json[0]\<close> is out of
  bounds: the step raises \<^verbatim>\<open>IndexError\<close>.
\<close>

theorem empty_enumeration_raises:
  "validate_input \<lparr>ui_api_key = ''user_key'', ui_scan_interval = 10,
                   ui_alarm_code = ''1234567890'', ui_olarm_devices = None\<rparr> = [] \<and>
   snd (async_step_user sample_consts (\<lambda>_. Returns (Some []))
          (fresh_state sample_consts)
          (Some \<lparr>ui_api_key = ''user_key'', ui_scan_interval = 10,
                 ui_alarm_code = ''1234567890'', ui_olarm_devices = None\<rparr>)) =
     Inl IndexError"
  by (simp add: async_step_user_empty_enumeration validate_input_def)

text \<open>
  Claim C4: a submission with the scan interval 5, on which the validation records an
  error, and a key for which the enumeration raises \<^verbatim>\<open>APIForbiddenError\<close>. No entry
  is created and no coordinator is registered, but the step does not return the form
  with the errors: it raises \<^verbatim>\<open>UnboundLocalError\<close>.
\<close>

theorem invalid_interval_forbidden_raises:
  "validate_input \<lparr>ui_api_key = ''wrong_key'', ui_scan_interval = 5,
                   ui_alarm_code = ''1234567890'', ui_olarm_devices = None\<rparr> \<noteq> [] \<and>
   snd (async_step_user sample_consts (\<lambda>_. Raises_APIForbiddenError)
          (fresh_state sample_consts)
          (Some \<lparr>ui_api_key = ''wrong_key'', ui_scan_interval = 5,
                 ui_alarm_code = ''1234567890'', ui_olarm_devices = None\<rparr>)) =
     Inl UnboundLocalError \<and>
   shown_errors (snd (async_step_user sample_consts (\<lambda>_. Raises_APIForbiddenError)
          (fresh_state sample_consts)
          (Some \<lparr>ui_api_key = ''wrong_key'', ui_scan_interval = 5,
                 ui_alarm_code = ''1234567890'', ui_olarm_devices = None\<rparr>))) = None"
  by (simp add: async_step_user_forbidden validate_input_def shown_errors_def update_not_Nil)

text \<open>
  Claim C6: when the options step creates the new entry data, every key it does not
  assign keeps the value of the existing entry, in particular
  \<^verbatim>\<open>CONF_DEVICE_FIRMWARE\<close>, \<^verbatim>\<open>OLARM_DEVICE_NAMES\<close> and \<^verbatim>\<open>OLARM_DEVICES\<close>;
  the API key, the scan interval, the alarm code and the selected devices are rewritten
  from the submission, and the amount from the length of the existing name list.
\<close>

theorem options_frame:
  assumes "distinct (entry_keys c)"
    and "created_entry (async_step_init c ios e (Some ui)) = Some new"
  shows "new (CONF_DEVICE_FIRMWARE c) = ce_data e (CONF_DEVICE_FIRMWARE c) \<and>
     new (OLARM_DEVICE_NAMES c) = ce_data e (OLARM_DEVICE_NAMES c) \<and>
     new (OLARM_DEVICES c) = ce_data e (OLARM_DEVICES c) \<and>
     (\<forall>k. k \<notin> {CONF_API_KEY, CONF_SCAN_INTERVAL, CONF_ALARM_CODE c, CONF_OLARM_DEVICES c,
               OLARM_DEVICE_AMOUNT c} \<longrightarrow> new k = ce_data e k) \<and>
     new CONF_API_KEY = Some (PStr (ui_api_key ui)) \<and>
     new CONF_SCAN_INTERVAL = Some (PInt (ui_scan_interval ui)) \<and>
     new (CONF_ALARM_CODE c) =
       Some (if ui_alarm_code ui = ''1234567890'' then PNone else PStr (ui_alarm_code ui)) \<and>
     (\<exists>sel. ui_olarm_devices ui = Some sel \<and> new (CONF_OLARM_DEVICES c) = Some (PStrList sel)) \<and>
     (\<exists>names n. ce_data e (OLARM_DEVICE_NAMES c) = Some names \<and> py_len names = Inr n \<and>
        new (OLARM_DEVICE_AMOUNT c) = Some (PInt (int n)))"
proof -
  from async_step_init_created [OF assms(2)] obtain names n sel where
    names: "ce_data e (OLARM_DEVICE_NAMES c) = Some names" "py_len names = Inr n" and
    sel: "ui_olarm_devices ui = Some sel" and
    new: "new = (ce_data e)
             (CONF_ALARM_CODE c \<mapsto> stored_alarm_code ui,
              OLARM_DEVICE_AMOUNT c \<mapsto> PInt (int n),
              CONF_SCAN_INTERVAL \<mapsto> PInt (ui_scan_interval ui),
              CONF_API_KEY \<mapsto> PStr (ui_api_key ui),
              CONF_OLARM_DEVICES c \<mapsto> PStrList sel)"
    by blast
  note ks = distinct_entry_keys [OF assms(1)]
  show ?thesis
    using names sel ks by (simp add: new stored_alarm_code_def)
qed

theorem options_frame_witness:
  "distinct (entry_keys sample_consts) \<and>
   created_entry (async_step_init sample_consts (\<lambda>_. None)
      \<lparr>ce_domain = ''olarm_sensors'', ce_source = ''user'', ce_version = 1,
       ce_minor_version = 0, ce_title = ''Olarm Sensors'',
       ce_data = entry_data sample_consts ''old_key'' 10 ''1.0'' PNone
                   [''Device1'', ''Device2''] mock_devices\<rparr>
      (Some \<lparr>ui_api_key = ''new_key'', ui_scan_interval = 30, ui_alarm_code = ''4321'',
             ui_olarm_devices = Some [''Device1'']\<rparr>)) \<noteq> None \<and>
   entry_value (async_step_init sample_consts (\<lambda>_. None)
      \<lparr>ce_domain = ''olarm_sensors'', ce_source = ''user'', ce_version = 1,
       ce_minor_version = 0, ce_title = ''Olarm Sensors'',
       ce_data = entry_data sample_consts ''old_key'' 10 ''1.0'' PNone
                   [''Device1'', ''Device2''] mock_devices\<rparr>
      (Some \<lparr>ui_api_key = ''new_key'', ui_scan_interval = 30, ui_alarm_code = ''4321'',
             ui_olarm_devices = Some [''Device1'']\<rparr>))
      (CONF_DEVICE_FIRMWARE sample_consts) = Some (PStr ''1.0'')"
proof -
  let ?e = "\<lparr>ce_domain = ''olarm_sensors'', ce_source = ''user'', ce_version = 1,
       ce_minor_version = 0, ce_title = ''Olarm Sensors'',
       ce_data = entry_data sample_consts ''old_key'' 10 ''1.0'' PNone
                   [''Device1'', ''Device2''] mock_devices\<rparr>"
  let ?ui = "\<lparr>ui_api_key = ''new_key'', ui_scan_interval = 30, ui_alarm_code = ''4321'',
             ui_olarm_devices = Some [''Device1'']\<rparr>"
  note k = distinct_sample_consts
  have names: "ce_data ?e (OLARM_DEVICE_NAMES sample_consts) =
                 Some (PStrList [''Device1'', ''Device2''])"
    using entry_data_lookup(8) [OF k] by simp
  have len: "py_len (PStrList [''Device1'', ''Device2'']) = Inr 2"
    by (simp add: py_len_def)
  have sel: "ui_olarm_devices ?ui = Some [''Device1'']" by simp
  note run = async_step_init_ok [OF names len sel, of "\<lambda>_. None"]
  then obtain new where h: "created_entry (async_step_init sample_consts (\<lambda>_. None) ?e (Some ?ui)) = Some new"
    by (simp add: created_entry_def)
  from options_frame [OF k h] have
    "new (CONF_DEVICE_FIRMWARE sample_consts) = ce_data ?e (CONF_DEVICE_FIRMWARE sample_consts)"
    by blast
  with h k show ?thesis
    using entry_data_lookup(3) [OF k] by (simp add: entry_value_def)
qed




text \<open>
  Claim C3, as stated, fails: the setup step reads no selection. A submission that carries
  the selection \<^verbatim>\<open>["Device1"]\<close> persists both device names and registers a
  coordinator for the device that was not selected.
\<close>

theorem setup_ignores_selection:
  "entry_value (snd (async_step_user sample_consts (\<lambda>_. Raises_other)
      (fresh_state sample_consts)
      (Some \<lparr>ui_api_key = ''mock_api_key'', ui_scan_interval = 10,
             ui_alarm_code = ''1234567890'', ui_olarm_devices = Some [''Device1'']\<rparr>)))
      (CONF_OLARM_DEVICES sample_consts) = Some (PStrList [''Device1'', ''Device2'']) \<and>
   map_option co_device_name
     (registered_coordinator sample_consts
        (fst (async_step_user sample_consts (\<lambda>_. Raises_other)
          (fresh_state sample_consts)
          (Some \<lparr>ui_api_key = ''mock_api_key'', ui_scan_interval = 10,
             ui_alarm_code = ''1234567890'', ui_olarm_devices = Some [''Device1'']\<rparr>)))
        ''124'') = Some ''Device2''"
  by (simp add: async_step_user_def fetch_devices_def validate_input_def Let_def
        stored_alarm_code_def mock_devices_def create_devices_entry_def entry_value_def
        created_entry_def entry_data_def sample_consts_def fresh_state_def
        registered_coordinator_def OlarmCoordinator_def)

text \<open>
  Claim C3, amended: the setup step offers and reads no selection. The form it shows,
  first and after an error, has the schema of \<^verbatim>\<open>_get_schema\<close>, which has no field
  \<^verbatim>\<open>CONF_OLARM_DEVICES\<close> and no multi-select field. The names persisted under
  \<^verbatim>\<open>CONF_OLARM_DEVICES\<close> are the names of all the enumerated devices, the same list
  as \<^verbatim>\<open>OLARM_DEVICE_NAMES\<close>; a coordinator is registered under the id of every
  enumerated device, the other ids keep what they had; and a value submitted under
  \<^verbatim>\<open>CONF_OLARM_DEVICES\<close> changes nothing.
\<close>

theorem setup_persists_all_devices:
  assumes "distinct (entry_keys c)"
    and "created_entry (snd (async_step_user c api st (Some ui))) = Some d"
  shows "(\<exists>devs.
     (ui_api_key ui = ''mock_api_key'' \<and> devs = mock_devices \<or>
      ui_api_key ui \<noteq> ''mock_api_key'' \<and> api (ui_api_key ui) = Returns (Some devs)) \<and>
     d (CONF_OLARM_DEVICES c) = Some (PStrList (map deviceName devs)) \<and>
     d (OLARM_DEVICE_NAMES c) = Some (PStrList (map deviceName devs)) \<and>
     (\<forall>dev \<in> set devs.
        \<exists>co. registered_coordinator c (fst (async_step_user c api st (Some ui)))
               (deviceId dev) = Some co \<and>
             co_device_id co = deviceId dev \<and> co_device_name co \<in> deviceName ` set devs) \<and>
     (\<forall>i. i \<notin> deviceId ` set devs \<longrightarrow>
        registered_coordinator c (fst (async_step_user c api st (Some ui))) i =
        registered_coordinator c st i) \<and>
     (\<forall>sel. async_step_user c api st (Some (ui\<lparr>ui_olarm_devices := sel\<rparr>)) =
            async_step_user c api st (Some ui))) \<and>
   shown_schema (snd (async_step_user c api st None)) = Some (setup_get_schema c) \<and>
   (\<forall>api' st' user_input.
      shown_schema (snd (async_step_user c api' st' user_input)) = None \<or>
      shown_schema (snd (async_step_user c api' st' user_input)) = Some (setup_get_schema c)) \<and>
   CONF_OLARM_DEVICES c \<notin> field_key ` set (setup_get_schema c) \<and>
   (\<forall>f \<in> set (setup_get_schema c). \<not> is_multi_select (field_validator f))"
proof -
  from async_step_user_created [OF assms(2)] obtain devs where
    src: "ui_api_key ui = ''mock_api_key'' \<and> devs = mock_devices \<or>
          ui_api_key ui \<noteq> ''mock_api_key'' \<and> api (ui_api_key ui) = Returns (Some devs)" and
    d: "d = entry_data c (ui_api_key ui) (ui_scan_interval ui) (deviceFirmware (hd devs))
             (stored_alarm_code ui) (map deviceName devs) devs" and
    dom: "hass_data st (DOMAIN c) \<noteq> None" and
    hd: "hass_data (fst (async_step_user c api st (Some ui))) =
         (hass_data st)(DOMAIN c \<mapsto>
            registered
              (temp_entry c (ui_api_key ui) (ui_scan_interval ui) (deviceFirmware (hd devs))
                 (stored_alarm_code ui) (map deviceName devs) devs)
              devs (the (hass_data st (DOMAIN c))))"
    by auto
  from dom have dd: "hass_data st (DOMAIN c) = Some (the (hass_data st (DOMAIN c)))" by simp
  note reg = registered_coordinator_after [OF hd dd]
  have first: "\<exists>devs.
     (ui_api_key ui = ''mock_api_key'' \<and> devs = mock_devices \<or>
      ui_api_key ui \<noteq> ''mock_api_key'' \<and> api (ui_api_key ui) = Returns (Some devs)) \<and>
     d (CONF_OLARM_DEVICES c) = Some (PStrList (map deviceName devs)) \<and>
     d (OLARM_DEVICE_NAMES c) = Some (PStrList (map deviceName devs)) \<and>
     (\<forall>dev \<in> set devs.
        \<exists>co. registered_coordinator c (fst (async_step_user c api st (Some ui)))
               (deviceId dev) = Some co \<and>
             co_device_id co = deviceId dev \<and> co_device_name co \<in> deviceName ` set devs) \<and>
     (\<forall>i. i \<notin> deviceId ` set devs \<longrightarrow>
        registered_coordinator c (fst (async_step_user c api st (Some ui))) i =
        registered_coordinator c st i) \<and>
     (\<forall>sel. async_step_user c api st (Some (ui\<lparr>ui_olarm_devices := sel\<rparr>)) =
            async_step_user c api st (Some ui))"
    using src d reg entry_data_lookup [OF assms(1)] async_step_user_ignores_selection
    by (intro exI [of _ devs]) simp
  have form: "shown_schema (snd (async_step_user c api st None)) = Some (setup_get_schema c)"
    by (simp add: async_step_user_None shown_schema_def show_setup_form_def)
  from first form async_step_user_shown_schema setup_get_schema_no_selection [OF assms(1)]
  show ?thesis by blast
qed

theorem setup_persists_all_devices_witness:
  "distinct (entry_keys sample_consts) \<and>
   created_entry (snd (async_step_user sample_consts (\<lambda>_. Raises_other)
      (fresh_state sample_consts)
      (Some \<lparr>ui_api_key = ''mock_api_key'', ui_scan_interval = 10,
             ui_alarm_code = ''1234567890'', ui_olarm_devices = Some [''Device1'']\<rparr>))) =
     Some (entry_data sample_consts ''mock_api_key'' 10 ''1.0'' PNone [''Device1'', ''Device2'']
             mock_devices) \<and>
   entry_data sample_consts ''mock_api_key'' 10 ''1.0'' PNone [''Device1'', ''Device2'']
     mock_devices (CONF_OLARM_DEVICES sample_consts) =
     Some (PStrList [''Device1'', ''Device2'']) \<and>
   map_option co_device_name
     (registered_coordinator sample_consts
        (fst (async_step_user sample_consts (\<lambda>_. Raises_other)
          (fresh_state sample_consts)
          (Some \<lparr>ui_api_key = ''mock_api_key'', ui_scan_interval = 10,
             ui_alarm_code = ''1234567890'', ui_olarm_devices = Some [''Device1'']\<rparr>)))
        ''123'') = Some ''Device1'' \<and>
   shown_schema (snd (async_step_user sample_consts (\<lambda>_. Raises_other)
      (fresh_state sample_consts) None)) =
     Some [\<lparr>field_key = ''api_key'', field_required = True, field_default = None,
            field_validator = Cv_string\<rparr>,
           \<lparr>field_key = ''scan_interval'', field_required = True, field_default = None,
            field_validator = Coerce_int_range_min 8\<rparr>,
           \<lparr>field_key = ''olarm_arm_code'', field_required = False,
            field_default = Some (PStr ''1234567890''), field_validator = Cv_string\<rparr>] \<and>
   shown_schema (snd (async_step_user sample_consts (\<lambda>_. Raises_other)
      (fresh_state sample_consts)
      (Some \<lparr>ui_api_key = [], ui_scan_interval = 10,
             ui_alarm_code = ''1234567890'', ui_olarm_devices = Some [''Device1'']\<rparr>))) =
     Some (setup_get_schema sample_consts)"
proof -
  let ?ui = "\<lparr>ui_api_key = ''mock_api_key'', ui_scan_interval = 10,
             ui_alarm_code = ''1234567890'', ui_olarm_devices = Some [''Device1'']\<rparr>"
  let ?d = "entry_data sample_consts ''mock_api_key'' 10 ''1.0'' PNone [''Device1'', ''Device2'']
             mock_devices"
  let ?api = "\<lambda>_::string. Raises_other"
  note k = distinct_sample_consts
  have dom: "hass_data (fresh_state sample_consts) (DOMAIN sample_consts) \<noteq> None"
    by (simp add: fresh_state_def)
  have h: "created_entry (snd (async_step_user sample_consts ?api
      (fresh_state sample_consts) (Some ?ui))) = Some ?d"
    using async_step_user_mock [OF _ dom, of 10 ?api "''1234567890''" "Some [''Device1'']"]
    by (simp add: created_entry_def)
  have reg: "map_option co_device_name
     (registered_coordinator sample_consts
        (fst (async_step_user sample_consts ?api (fresh_state sample_consts) (Some ?ui)))
        ''123'') = Some ''Device1''"
    by (simp add: async_step_user_def fetch_devices_def validate_input_def Let_def
        stored_alarm_code_def mock_devices_def create_devices_entry_def
        sample_consts_def fresh_state_def registered_coordinator_def OlarmCoordinator_def)
  have form1: "shown_schema (snd (async_step_user sample_consts ?api
      (fresh_state sample_consts) None)) =
     Some [\<lparr>field_key = ''api_key'', field_required = True, field_default = None,
            field_validator = Cv_string\<rparr>,
           \<lparr>field_key = ''scan_interval'', field_required = True, field_default = None,
            field_validator = Coerce_int_range_min 8\<rparr>,
           \<lparr>field_key = ''olarm_arm_code'', field_required = False,
            field_default = Some (PStr ''1234567890''), field_validator = Cv_string\<rparr>]"
    by (simp add: async_step_user_None shown_schema_def show_setup_form_def
          setup_get_schema_def CONF_API_KEY_def CONF_SCAN_INTERVAL_def sample_consts_def)
  have form2: "shown_schema (snd (async_step_user sample_consts ?api
      (fresh_state sample_consts)
      (Some \<lparr>ui_api_key = [], ui_scan_interval = 10,
             ui_alarm_code = ''1234567890'', ui_olarm_devices = Some [''Device1'']\<rparr>))) =
     Some (setup_get_schema sample_consts)"
    by (simp add: async_step_user_def fetch_devices_def validate_input_def Let_def
          shown_schema_def show_setup_form_def update_not_Nil)
  from setup_persists_all_devices [OF k h] show ?thesis
    using k h reg form1 form2 by (auto simp: mock_devices_def)
qed






end
